theory Spec2Isabelle
  imports Complex_Main "HOL-Library.Log_Nat"
begin

section \<open>JavaScript numbers\<close>

text \<open>
  A TypeScript \<open>number\<close> is an IEEE 754 double: NaN, the two infinities, negative
  zero, or a finite value \<open>Fin q\<close> (\<open>Fin 0\<close> is positive zero). The result of an
  arithmetic operation is the exact result rounded to the nearest double, ties to the
  even significand.
\<close>

datatype number = NaN | PosInf | NegInf | NegZero | Fin rat

definition pow2 :: "int \<Rightarrow> int" where
  "pow2 k = 2 ^ nat k"

text \<open>\<open>floor_log2 n d\<close> is the integer \<open>e\<close> with \<open>2^e \<le> n / d < 2^(e + 1)\<close>, for positive \<open>n\<close> and \<open>d\<close>.\<close>

definition floor_log2 :: "int \<Rightarrow> int \<Rightarrow> int" where
  "floor_log2 n d =
     (let e = bitlen n - bitlen d
      in if (if 0 \<le> e then pow2 e * d \<le> n else d \<le> n * pow2 (- e)) then e else e - 1)"

text \<open>The integer nearest to \<open>n / d\<close>, the even one of the two when it is half way.\<close>

definition round_half_even :: "int \<Rightarrow> int \<Rightarrow> int" where
  "round_half_even n d =
     (let f = n div d; r = n mod d
      in if 2 * r < d then f
         else if d < 2 * r then f + 1
         else if f mod 2 = 0 then f else f + 1)"

text \<open>
  The double nearest to the positive \<open>n / d\<close>: a multiple of \<open>2^p\<close>, where \<open>p\<close> leaves
  53 significant bits and is at least \<open>-1074\<close>, the exponent of the smallest
  subnormal.
\<close>

definition round_magnitude :: "int \<Rightarrow> int \<Rightarrow> rat" where
  "round_magnitude n d =
     (let e = floor_log2 n d;
          p = max (e - 52) (- 1074);
          m = (if 0 \<le> p then round_half_even n (d * pow2 p)
               else round_half_even (n * pow2 (- p)) d)
      in if 0 \<le> p then of_int (m * pow2 p) else of_int m / of_int (pow2 (- p)))"

text \<open>
  Magnitudes from \<open>2^1024 - 2^970\<close> on, half a unit in the last place above the
  largest double, round to an infinity; a non-zero magnitude that rounds to zero keeps
  its sign.
\<close>

definition round_double :: "rat \<Rightarrow> number" where
  "round_double q =
     (if q = 0 then Fin 0
      else
        (let (n, d) = quotient_of \<bar>q\<bar>
         in if (pow2 1024 - pow2 970) * d \<le> n then (if q < 0 then NegInf else PosInf)
            else
              (let v = round_magnitude n d
               in if v = 0 then (if q < 0 then NegZero else Fin 0)
                  else Fin (if q < 0 then - v else v))))"

fun is_inf :: "number \<Rightarrow> bool" where
  "is_inf PosInf = True"
| "is_inf NegInf = True"
| "is_inf _ = False"

fun is_zero :: "number \<Rightarrow> bool" where
  "is_zero NegZero = True"
| "is_zero (Fin q) = (q = 0)"
| "is_zero _ = False"

fun sign_neg :: "number \<Rightarrow> bool" where
  "sign_neg NegInf = True"
| "sign_neg NegZero = True"
| "sign_neg (Fin q) = (q < 0)"
| "sign_neg _ = False"

text \<open>The value of a finite number.\<close>

fun val :: "number \<Rightarrow> rat" where
  "val (Fin q) = q"
| "val _ = 0"

text \<open>Unary minus.\<close>

fun js_neg :: "number \<Rightarrow> number" where
  "js_neg NaN = NaN"
| "js_neg PosInf = NegInf"
| "js_neg NegInf = PosInf"
| "js_neg NegZero = Fin 0"
| "js_neg (Fin q) = (if q = 0 then NegZero else Fin (- q))"

text \<open>\<open>a + b\<close>: opposite infinities give NaN, and a zero sum is negative only for \<open>-0 + -0\<close>.\<close>

definition js_add :: "number \<Rightarrow> number \<Rightarrow> number" where
  "js_add a b =
     (if a = NaN \<or> b = NaN then NaN
      else if is_inf a then (if is_inf b \<and> a \<noteq> b then NaN else a)
      else if is_inf b then b
      else if a = NegZero \<and> b = NegZero then NegZero
      else round_double (val a + val b))"

text \<open>\<open>a - b\<close>.\<close>

definition js_sub :: "number \<Rightarrow> number \<Rightarrow> number" where
  "js_sub a b = js_add a (js_neg b)"

text \<open>\<open>a * b\<close>: an infinity times a zero is NaN; the sign is the product of the signs.\<close>

definition js_mul :: "number \<Rightarrow> number \<Rightarrow> number" where
  "js_mul a b =
     (if a = NaN \<or> b = NaN then NaN
      else if is_inf a \<or> is_inf b then
        (if is_zero a \<or> is_zero b then NaN
         else if sign_neg a \<noteq> sign_neg b then NegInf else PosInf)
      else if val a * val b = 0 then (if sign_neg a \<noteq> sign_neg b then NegZero else Fin 0)
      else round_double (val a * val b))"

text \<open>\<open>a <= b\<close>: false when either is NaN; the two zeros are equal.\<close>

definition js_le :: "number \<Rightarrow> number \<Rightarrow> bool" where
  "js_le a b \<longleftrightarrow>
     (if a = NaN \<or> b = NaN then False
      else if a = NegInf \<or> b = PosInf then True
      else if a = PosInf \<or> b = NegInf then False
      else val a \<le> val b)"

text \<open>\<open>a < b\<close>.\<close>

definition js_lt :: "number \<Rightarrow> number \<Rightarrow> bool" where
  "js_lt a b \<longleftrightarrow> js_le a b \<and> \<not> js_le b a"

text \<open>\<open>Math.max(a, b)\<close>: NaN when either is NaN; positive zero is above negative zero.\<close>

definition js_max :: "number \<Rightarrow> number \<Rightarrow> number" where
  "js_max a b =
     (if a = NaN \<or> b = NaN then NaN
      else if js_lt a b then b
      else if js_lt b a then a
      else if a = NegZero then b else a)"

text \<open>The numbers that count as true in a condition: all but NaN and the two zeros.\<close>

fun truthy :: "number \<Rightarrow> bool" where
  "truthy NaN = False"
| "truthy NegZero = False"
| "truthy (Fin q) = (q \<noteq> 0)"
| "truthy _ = True"

text \<open>\<open>Number.MAX_VALUE\<close>, the largest double.\<close>

definition max_value :: rat where
  "max_value = of_int (pow2 1024 - pow2 971)"

text \<open>A finite double: not NaN, not an infinity, of magnitude at most \<open>max_value\<close>.\<close>

fun finite_double :: "number \<Rightarrow> bool" where
  "finite_double (Fin q) = (\<bar>q\<bar> \<le> max_value)"
| "finite_double NegZero = True"
| "finite_double _ = False"

section \<open>Data model (types.ts)\<close>

text \<open>
  A TypeScript \<open>string\<close> is a list of characters, one per code unit below 256; the
  accented letters of the messages are written by their code. An optional field
  (\<open>f?: number\<close>) is an \<open>option\<close>, \<open>None\<close> standing for \<open>undefined\<close>.
\<close>

text \<open>
  \<open>enum PricingModel\<close> is string-valued, and the CSV reader casts whatever text the
  column holds to it, so the \<open>model\<close> field is a string and the three members are
  string constants.
\<close>

definition TIERED :: string where
  "TIERED = ''TIERED''"

definition PER_HEAD_MIN :: string where
  "PER_HEAD_MIN = ''PER_HEAD_MIN''"

definition FLAT :: string where
  "FLAT = ''FLAT''"

record SocData =
  cnpj :: string
  companyName :: string
  activeEmployees :: number

record PricingRule =
  cnpj :: string
  model :: string
  basePrice :: number
  includedEmployees :: "number option"
  excessPrice :: "number option"
  minEmployees :: "number option"

datatype Status = READY | MISSING_RULE | MISSING_SOC

text \<open>
  The \<open>details\<close> text is built by template literals. It is kept as the sequence of
  its literal chunks and interpolated numbers; how JavaScript prints a number is not
  modelled.
\<close>

datatype piece = Lit string | Num number

record BillingResult =
  socData :: SocData
  pricingRule :: "PricingRule option"
  calculatedAmount :: number
  details :: "piece list"
  status :: Status

section \<open>calculationService.ts\<close>

subsection \<open>cleanCnpj\<close>

text \<open>The class \<open>\d\<close> of a JavaScript regular expression: the ten ASCII digits.\<close>

definition is_digit :: "char \<Rightarrow> bool" where
  "is_digit c \<longleftrightarrow> c \<in> set ''0123456789''"

text \<open>
  \<open>cnpj.replace(/[^\d]/g, '')\<close>: every character matching \<open>[^\d]\<close> is replaced by
  the empty string, the others are kept.
\<close>

definition cleanCnpj :: "string \<Rightarrow> string" where
  "cleanCnpj s = concat (map (\<lambda>c. if \<not> is_digit c then [] else [c]) s)"

subsection \<open>calculateBill\<close>

text \<open>
  \<open>x || 0\<close> on an optional number: \<open>undefined\<close>, NaN and the two zeros are falsy
  and give the right operand.
\<close>

fun or_zero :: "number option \<Rightarrow> number" where
  "or_zero None = Fin 0"
| "or_zero (Some v) = (if truthy v then v else Fin 0)"

definition msg_missing_rule :: string where
  "msg_missing_rule = ''Regra de contrato n'' @ [CHR 0xE3] @ ''o encontrada''"

definition msg_unknown_model :: string where
  "msg_unknown_model = ''Modelo desconhecido''"

definition calculateBill :: "SocData \<Rightarrow> PricingRule option \<Rightarrow> BillingResult" where
  "calculateBill soc ruleOpt =
    (case ruleOpt of
       None \<Rightarrow>
         \<lparr>socData = soc, pricingRule = None, calculatedAmount = Fin 0,
          details = [Lit msg_missing_rule], status = MISSING_RULE\<rparr>
     | Some rule \<Rightarrow>
         (let (amount, dets) =
            (if model rule = TIERED then
               (let included = or_zero (includedEmployees rule);
                    excessRate = or_zero (excessPrice rule)
                in if js_le (activeEmployees soc) included
                   then (basePrice rule,
                         [Lit (''Fixo (At'' @ [CHR 0xE9] @ '' ''), Num included, Lit '' func.)''])
                   else
                     (let excessCount = js_sub (activeEmployees soc) included;
                          excessTotal = js_mul excessCount excessRate
                      in (js_add (basePrice rule) excessTotal,
                          [Lit ''Base R$'', Num (basePrice rule), Lit '' + ('', Num excessCount,
                           Lit '' extras x R$'', Num excessRate, Lit '')''])))
             else if model rule = PER_HEAD_MIN then
               (let min = or_zero (minEmployees rule);
                    rate = basePrice rule;
                    billableCount = js_max (activeEmployees soc) min
                in (js_mul billableCount rate,
                    [Num billableCount, Lit '' faturados x R$'', Num rate,
                     Lit ('' (M'' @ [CHR 0xED] @ ''nimo: ''), Num min, Lit '')'']))
             else if model rule = FLAT then
               (basePrice rule, [Lit ''Valor fixo mensal''])
             else
               (Fin 0, [Lit msg_unknown_model]))
          in \<lparr>socData = soc, pricingRule = Some rule, calculatedAmount = amount,
              details = dets, status = READY\<rparr>))"

subsection \<open>reconcileData\<close>

text \<open>
  \<open>rulesList.forEach(r => rulesMap.set(cleanCnpj(r.cnpj), r))\<close> on a fresh \<open>Map\<close>:
  a left fold that stores each rule under its cleaned identifier.
\<close>

definition rulesMap :: "PricingRule list \<Rightarrow> (string \<rightharpoonup> PricingRule)" where
  "rulesMap rulesList = foldl (\<lambda>m r. m(cleanCnpj (PricingRule.cnpj r) \<mapsto> r)) Map.empty rulesList"

text \<open>The second \<open>forEach\<close> pushes one bill per record onto \<open>results\<close>.\<close>

definition reconcileData :: "SocData list \<Rightarrow> PricingRule list \<Rightarrow> BillingResult list" where
  "reconcileData socList rulesList =
    (let m = rulesMap rulesList
     in foldl (\<lambda>results soc.
                 (let cleanId = cleanCnpj (SocData.cnpj soc);
                      rule = m cleanId
                  in results @ [calculateBill soc rule]))
              [] socList)"

section \<open>App.tsx: the handlers that change the result list\<close>

text \<open>
  The updater that \<open>handleUpdate\<close> passes to \<open>setResults\<close>, applied to the previous
  list \<open>prev\<close>.
\<close>

definition handleUpdate :: "string \<Rightarrow> number \<Rightarrow> BillingResult list \<Rightarrow> BillingResult list" where
  "handleUpdate c newEmployees prev =
    map (\<lambda>item.
           if SocData.cnpj (socData item) = c
           then (let newSocData = (socData item)\<lparr>activeEmployees := newEmployees\<rparr>
                 in calculateBill newSocData (pricingRule item))
           else item)
        prev"

definition handleDelete :: "string \<Rightarrow> BillingResult list \<Rightarrow> BillingResult list" where
  "handleDelete c prev = filter (\<lambda>item. SocData.cnpj (socData item) \<noteq> c) prev"

definition handleDataLoaded :: "SocData list \<Rightarrow> PricingRule list \<Rightarrow> BillingResult list" where
  "handleDataLoaded socList pricingData = reconcileData socList pricingData"

text \<open>
  The lists the \<open>results\<close> state can hold: it starts empty (\<open>useState([])\<close>) and is
  changed by the three handlers only.
\<close>

inductive_set held_results :: "BillingResult list set" where
  initial: "[] \<in> held_results"
| loaded: "handleDataLoaded socList pricingData \<in> held_results"
| updated: "prev \<in> held_results \<Longrightarrow> handleUpdate c newEmployees prev \<in> held_results"
| deleted: "prev \<in> held_results \<Longrightarrow> handleDelete c prev \<in> held_results"

section \<open>Conditions on the data\<close>

text \<open>
  The bounds of the data model on a pricing rule: the base price and every optional
  numeric field that is present are at least 0 (\<open>v >= 0\<close>, which NaN fails and
  negative zero and positive infinity pass).
\<close>

definition rule_fields_nonneg :: "PricingRule \<Rightarrow> bool" where
  "rule_fields_nonneg rule \<longleftrightarrow>
     js_le (Fin 0) (basePrice rule)
     \<and> (case includedEmployees rule of None \<Rightarrow> True | Some v \<Rightarrow> js_le (Fin 0) v)
     \<and> (case excessPrice rule of None \<Rightarrow> True | Some v \<Rightarrow> js_le (Fin 0) v)
     \<and> (case minEmployees rule of None \<Rightarrow> True | Some v \<Rightarrow> js_le (Fin 0) v)"

text \<open>The base price and every optional numeric field that is present are finite.\<close>

definition rule_fields_finite :: "PricingRule \<Rightarrow> bool" where
  "rule_fields_finite rule \<longleftrightarrow>
     finite_double (basePrice rule)
     \<and> (case includedEmployees rule of None \<Rightarrow> True | Some v \<Rightarrow> finite_double v)
     \<and> (case excessPrice rule of None \<Rightarrow> True | Some v \<Rightarrow> finite_double v)
     \<and> (case minEmployees rule of None \<Rightarrow> True | Some v \<Rightarrow> finite_double v)"

text \<open>
  A result holds a matched rule when the rule it carries, if any, has the cleaned
  identifier of its record: the rule is one the reconciler's lookup could have given.
\<close>

definition held_rule_matches :: "BillingResult \<Rightarrow> bool" where
  "held_rule_matches item \<longleftrightarrow>
     (case pricingRule item of
        None \<Rightarrow> True
      | Some r \<Rightarrow> cleanCnpj (PricingRule.cnpj r) = cleanCnpj (SocData.cnpj (socData item)))"

text \<open>
  The status of a result follows the rule it carries: READY with a rule, MISSING_RULE
  without one, and never MISSING_SOC.
\<close>

definition status_tracks_rule :: "BillingResult \<Rightarrow> bool" where
  "status_tracks_rule res \<longleftrightarrow>
     status res \<noteq> MISSING_SOC
     \<and> (status res = READY \<longleftrightarrow> pricingRule res \<noteq> None)
     \<and> (status res = MISSING_RULE \<longleftrightarrow> pricingRule res = None)"

section \<open>Sample data\<close>

text \<open>
  Two records of one company, one with a punctuated and one with a plain identifier,
  a record of another company, and three contracts.
\<close>

definition sample_punctuated :: SocData where
  "sample_punctuated =
     \<lparr>SocData.cnpj = ''12.345.678/0001-90'', companyName = ''Alfa'', activeEmployees = Fin 8\<rparr>"

definition sample_plain :: SocData where
  "sample_plain =
     \<lparr>SocData.cnpj = ''12345678000190'', companyName = ''Alfa'', activeEmployees = Fin 4\<rparr>"

definition sample_other :: SocData where
  "sample_other = \<lparr>SocData.cnpj = ''99'', companyName = ''Beta'', activeEmployees = Fin 2\<rparr>"

definition sample_tiered :: PricingRule where
  "sample_tiered =
     \<lparr>PricingRule.cnpj = ''12.345.678/0001-90'', model = ''TIERED'', basePrice = Fin 129,
      includedEmployees = Some (Fin 5), excessPrice = Some (Fin 12), minEmployees = None\<rparr>"

definition sample_flat :: PricingRule where
  "sample_flat =
     \<lparr>PricingRule.cnpj = ''12345678000190'', model = ''FLAT'', basePrice = Fin 500,
      includedEmployees = None, excessPrice = None, minEmployees = None\<rparr>"

definition sample_per_head :: PricingRule where
  "sample_per_head =
     \<lparr>PricingRule.cnpj = ''77'', model = ''PER_HEAD_MIN'', basePrice = Fin 13,
      includedEmployees = None, excessPrice = None, minEmployees = Some (Fin 10)\<rparr>"

text \<open>
  A contract in cents: \<open>parseFloat\<close> reads 129.9 and 12.9 as the nearest doubles.
  A contract whose base price is \<open>2^53\<close>, and per-head contracts at the double
  nearest to 0.1 and at an infinite price (\<open>parseFloat\<close> reads the text Infinity so).
\<close>

definition sample_cents :: PricingRule where
  "sample_cents =
     \<lparr>PricingRule.cnpj = ''12345678000190'', model = ''TIERED'',
      basePrice = Fin (4570449934339277 / 35184372088832),
      includedEmployees = Some (Fin 5),
      excessPrice = Some (Fin (7262054399134925 / 562949953421312)), minEmployees = None\<rparr>"

definition sample_large :: PricingRule where
  "sample_large =
     \<lparr>PricingRule.cnpj = ''99'', model = ''TIERED'', basePrice = Fin 9007199254740992,
      includedEmployees = Some (Fin 1), excessPrice = Some (Fin 1), minEmployees = None\<rparr>"

definition sample_tenth :: PricingRule where
  "sample_tenth =
     \<lparr>PricingRule.cnpj = ''99'', model = ''PER_HEAD_MIN'',
      basePrice = Fin (3602879701896397 / 36028797018963968),
      includedEmployees = None, excessPrice = None, minEmployees = Some (Fin 3)\<rparr>"

definition sample_unbounded :: PricingRule where
  "sample_unbounded =
     \<lparr>PricingRule.cnpj = ''99'', model = ''PER_HEAD_MIN'', basePrice = PosInf,
      includedEmployees = None, excessPrice = None, minEmployees = Some (Fin 0)\<rparr>"

definition sample_boundary :: SocData where
  "sample_boundary =
     \<lparr>SocData.cnpj = ''12345678000190'', companyName = ''Alfa'', activeEmployees = Fin 5\<rparr>"

definition sample_idle :: SocData where
  "sample_idle = \<lparr>SocData.cnpj = ''99'', companyName = ''Beta'', activeEmployees = Fin 0\<rparr>"

section \<open>Auxiliary facts\<close>

lemma cleanCnpj_filter: "cleanCnpj s = filter is_digit s"
  unfolding cleanCnpj_def by (induction s) simp_all

lemma foldl_set_lookup:
  "foldl (\<lambda>m r. m(key r \<mapsto> r)) m0 rs k =
     (if filter (\<lambda>r. key r = k) rs = [] then m0 k
      else Some (last (filter (\<lambda>r. key r = k) rs)))"
proof (induction rs rule: rev_induct)
  case Nil
  show ?case by simp
next
  case (snoc r rs)
  show ?case
  proof (cases "key r = k")
    case True
    then show ?thesis by simp
  next
    case False
    with snoc.IH show ?thesis by simp
  qed
qed

lemma rulesMap_lookup:
  "rulesMap rulesList k =
     (if filter (\<lambda>r. cleanCnpj (PricingRule.cnpj r) = k) rulesList = [] then None
      else Some (last (filter (\<lambda>r. cleanCnpj (PricingRule.cnpj r) = k) rulesList)))"
  unfolding rulesMap_def by (simp add: foldl_set_lookup)

lemma rulesMap_None:
  "rulesMap rulesList k = None \<longleftrightarrow> (\<forall>r \<in> set rulesList. cleanCnpj (PricingRule.cnpj r) \<noteq> k)"
  by (simp add: rulesMap_lookup filter_empty_conv)

lemma rulesMap_Some:
  assumes "rulesMap rulesList k = Some r"
  shows "r \<in> set rulesList \<and> cleanCnpj (PricingRule.cnpj r) = k"
proof -
  let ?ms = "filter (\<lambda>r. cleanCnpj (PricingRule.cnpj r) = k) rulesList"
  from assms have ne: "?ms \<noteq> []" and r: "r = last ?ms"
    by (auto simp: rulesMap_lookup split: if_splits)
  from ne have "last ?ms \<in> set ?ms" by (rule last_in_set)
  with r have "r \<in> set ?ms" by (simp only:)
  then show ?thesis unfolding set_filter by blast
qed

lemma rulesMap_last_occurrence:
  assumes "\<forall>r' \<in> set after. cleanCnpj (PricingRule.cnpj r') \<noteq> cleanCnpj (PricingRule.cnpj r)"
  shows "rulesMap (before @ r # after) (cleanCnpj (PricingRule.cnpj r)) = Some r"
proof -
  from assms have "filter (\<lambda>r'. cleanCnpj (PricingRule.cnpj r') = cleanCnpj (PricingRule.cnpj r)) after = []"
    by (simp add: filter_empty_conv)
  then show ?thesis
    by (simp add: rulesMap_lookup)
qed

lemma foldl_push: "foldl (\<lambda>results x. results @ [f x]) acc xs = acc @ map f xs"
  by (induction xs arbitrary: acc) simp_all

lemma reconcileData_map:
  "reconcileData socList rulesList =
     map (\<lambda>soc. calculateBill soc (rulesMap rulesList (cleanCnpj (SocData.cnpj soc)))) socList"
  unfolding reconcileData_def Let_def by (simp add: foldl_push)

lemma calculateBill_socData [simp]: "socData (calculateBill soc ruleOpt) = soc"
  by (simp add: calculateBill_def Let_def split: option.splits prod.splits)

lemma calculateBill_pricingRule [simp]: "pricingRule (calculateBill soc ruleOpt) = ruleOpt"
  by (simp add: calculateBill_def Let_def split: option.splits prod.splits)

lemma calculateBill_status:
  "status (calculateBill soc ruleOpt) = (case ruleOpt of None \<Rightarrow> MISSING_RULE | Some _ \<Rightarrow> READY)"
  by (simp add: calculateBill_def Let_def split: option.splits prod.splits)

lemma calculateBill_None:
  "calculateBill soc None =
     \<lparr>socData = soc, pricingRule = None, calculatedAmount = Fin 0,
      details = [Lit msg_missing_rule], status = MISSING_RULE\<rparr>"
  by (simp add: calculateBill_def)

text \<open>
  The arithmetic on known doubles: 0.1 is read as the double below, \<open>2^53 + 1\<close> is
  half way between two doubles and goes to the even one, and \<open>0 * Infinity\<close> is NaN.
\<close>

lemma double_arithmetic_examples:
  "round_double (1 / 10) = Fin (3602879701896397 / 36028797018963968)"
  "round_double (1299 / 10) = Fin (4570449934339277 / 35184372088832)"
  "js_add (Fin 9007199254740992) (Fin 1) = Fin 9007199254740992"
  "js_add (Fin 9007199254740992) (Fin 3) = Fin 9007199254740996"
  "js_mul (Fin 3) (Fin (3602879701896397 / 36028797018963968))
     = Fin (1351079888211149 / 4503599627370496)"
  "js_mul (Fin 0) PosInf = NaN"
  "js_sub PosInf PosInf = NaN"
  "js_sub NegZero (Fin 0) = NegZero"
  "js_max NegZero (Fin 0) = Fin 0"
  "js_max NaN (Fin 3) = NaN"
  "\<not> js_le NaN NaN"
  "js_le NegZero (Fin 0) \<and> js_le (Fin 0) NegZero"
  by code_simp+

lemma pow2_pos: "0 < pow2 k"
  by (simp add: pow2_def)

lemma quotient_of_abs:
  assumes "quotient_of \<bar>q\<bar> = (n, d)"
  shows "0 \<le> n" and "0 < d" and "\<bar>q\<bar> = of_int n / of_int d"
proof -
  from assms show d: "0 < d" by (rule quotient_of_denom_pos)
  from assms show eq: "\<bar>q\<bar> = of_int n / of_int d" by (rule quotient_of_div)
  have "(0::rat) \<le> of_int n / of_int d" using eq [symmetric] by simp
  with d show "0 \<le> n" by (simp add: zero_le_divide_iff)
qed

lemma round_half_even_nonneg:
  assumes "0 \<le> n" and "0 < d"
  shows "0 \<le> round_half_even n d"
proof -
  from assms have "0 \<le> n div d" by (simp add: pos_imp_zdiv_nonneg_iff)
  then show ?thesis by (simp add: round_half_even_def Let_def)
qed

lemma round_magnitude_nonneg:
  assumes "0 \<le> n" and "0 < d"
  shows "0 \<le> round_magnitude n d"
proof -
  let ?p = "max (floor_log2 n d - 52) (- 1074)"
  have a: "0 \<le> round_half_even n (d * pow2 ?p)"
    using assms pow2_pos [of ?p] by (intro round_half_even_nonneg) simp_all
  have b: "0 \<le> round_half_even (n * pow2 (- ?p)) d"
    using assms pow2_pos [of "- ?p"] by (intro round_half_even_nonneg) simp_all
  have c: "0 \<le> pow2 ?p" "0 \<le> pow2 (- ?p)"
    using pow2_pos [of ?p] pow2_pos [of "- ?p"] by simp_all
  show ?thesis
    unfolding round_magnitude_def Let_def
    using a b c by (simp del: of_int_mult)
qed

lemma round_double_nonneg:
  assumes "0 \<le> q"
  shows "js_le (Fin 0) (round_double q)"
proof (cases "q = 0")
  case True
  then show ?thesis by (simp add: round_double_def js_le_def)
next
  case False
  obtain n d where nd: "quotient_of \<bar>q\<bar> = (n, d)" by (cases "quotient_of \<bar>q\<bar>")
  from quotient_of_abs [OF nd] have "0 \<le> round_magnitude n d"
    by (intro round_magnitude_nonneg)
  with False assms nd show ?thesis
    by (simp add: round_double_def Let_def js_le_def)
qed

lemma round_double_not_inf:
  assumes "\<bar>q\<bar> \<le> max_value"
  shows "\<not> is_inf (round_double q)"
proof (cases "q = 0")
  case True
  then show ?thesis by (simp add: round_double_def)
next
  case False
  obtain n d where nd: "quotient_of \<bar>q\<bar> = (n, d)" by (cases "quotient_of \<bar>q\<bar>")
  note q = quotient_of_abs [OF nd]
  have "\<not> (pow2 1024 - pow2 970) * d \<le> n"
  proof
    assume "(pow2 1024 - pow2 970) * d \<le> n"
    then have "(of_int ((pow2 1024 - pow2 970) * d) :: rat) \<le> of_int n"
      by (simp only: of_int_le_iff)
    with q(2) have "(of_int (pow2 1024 - pow2 970) :: rat) \<le> of_int n / of_int d"
      by (simp add: pos_le_divide_eq)
    with q(3) assms have "(of_int (pow2 1024 - pow2 970) :: rat) \<le> of_int (pow2 1024 - pow2 971)"
      by (simp add: max_value_def)
    then have "pow2 1024 - pow2 970 \<le> pow2 1024 - pow2 971"
      by (simp only: of_int_le_iff)
    then have "pow2 971 \<le> pow2 970" by simp
    then show False by (simp add: pow2_def)
  qed
  with False nd show ?thesis
    by (simp add: round_double_def Let_def)
qed

lemma nonneg_simps [simp]:
  "\<not> js_le (Fin 0) NaN"
  "js_le (Fin 0) PosInf"
  "\<not> js_le (Fin 0) NegInf"
  "js_le (Fin 0) NegZero"
  "js_le (Fin 0) (Fin q) \<longleftrightarrow> 0 \<le> q"
  by (simp_all add: js_le_def)

lemma nonneg_cases:
  "js_le (Fin 0) a \<longleftrightarrow> a = PosInf \<or> a = NegZero \<or> (\<exists>q. a = Fin q \<and> 0 \<le> q)"
  by (cases a) simp_all

lemma js_add_nonneg:
  assumes "js_le (Fin 0) a" and "js_le (Fin 0) b"
  shows "js_le (Fin 0) (js_add a b)"
  using assms
  by (cases a; cases b) (simp_all add: js_add_def round_double_nonneg)

lemma js_mul_nonneg:
  assumes "js_le (Fin 0) a" and "js_le (Fin 0) b" and "\<not> is_inf a" and "\<not> is_inf b"
  shows "js_le (Fin 0) (js_mul a b)"
  using assms
  by (cases a; cases b) (simp_all add: js_mul_def round_double_nonneg)

lemma js_sub_nonneg:
  assumes "finite_double a" and "js_le (Fin 0) b" and "\<not> is_inf b" and "\<not> js_le a b"
  shows "js_le (Fin 0) (js_sub a b) \<and> \<not> is_inf (js_sub a b)"
proof -
  from assms(2,3) have b: "b = NegZero \<or> (\<exists>q. b = Fin q \<and> 0 \<le> q)"
    by (auto simp: nonneg_cases)
  with assms(1,4) obtain qa where a: "a = Fin qa" and gt: "val b < qa" and le: "\<bar>qa\<bar> \<le> max_value"
    by (cases a) (auto simp: js_le_def)
  from b have vb: "0 \<le> val b" by auto
  from b have neg: "val (js_neg b) = - val b" "\<not> is_inf (js_neg b)" "js_neg b \<noteq> NaN"
    by (auto split: if_splits)
  have sum: "js_sub a b = round_double (qa - val b)"
    using a neg by (simp add: js_sub_def js_add_def)
  have "0 \<le> qa - val b" using gt by simp
  then have 1: "js_le (Fin 0) (round_double (qa - val b))"
    by (rule round_double_nonneg)
  have "\<bar>qa - val b\<bar> \<le> max_value" using gt vb le by simp
  then have 2: "\<not> is_inf (round_double (qa - val b))"
    by (rule round_double_not_inf)
  from 1 2 sum show ?thesis by simp
qed

lemma js_max_either:
  assumes "a \<noteq> NaN" and "b \<noteq> NaN"
  shows "js_max a b = a \<or> js_max a b = b"
  using assms by (simp add: js_max_def)

lemma or_zero_nonneg:
  assumes "case x of None \<Rightarrow> True | Some v \<Rightarrow> js_le (Fin 0) v"
  shows "js_le (Fin 0) (or_zero x)"
proof (cases x)
  case None
  then show ?thesis by simp
next
  case (Some v)
  with assms show ?thesis by (cases v) simp_all
qed

lemma or_zero_not_inf:
  assumes "case x of None \<Rightarrow> True | Some v \<Rightarrow> finite_double v"
  shows "\<not> is_inf (or_zero x)"
proof (cases x)
  case None
  then show ?thesis by simp
next
  case (Some v)
  with assms show ?thesis by (cases v) simp_all
qed

lemma finite_double_not_inf: "finite_double a \<Longrightarrow> \<not> is_inf a"
  by (cases a) simp_all

lemma js_le_refl: "a \<noteq> NaN \<Longrightarrow> js_le a a"
  by (cases a) (simp_all add: js_le_def)

lemma or_zero_not_NaN: "or_zero x \<noteq> NaN"
proof (cases x)
  case None
  then show ?thesis by simp
next
  case (Some v)
  then show ?thesis by (cases v) simp_all
qed

lemma or_zero_eq:
  "or_zero x = (case x of None \<Rightarrow> Fin 0 | Some v \<Rightarrow> if v = NaN \<or> v = NegZero then Fin 0 else v)"
proof (cases x)
  case None
  then show ?thesis by simp
next
  case (Some v)
  then show ?thesis by (cases v) simp_all
qed

lemma calculateBill_nonneg:
  assumes count: "js_le (Fin 0) (activeEmployees soc)" "finite_double (activeEmployees soc)"
    and nonneg: "rule_fields_nonneg rule"
    and finite: "rule_fields_finite rule"
  shows "js_le (Fin 0) (calculatedAmount (calculateBill soc (Some rule)))"
proof -
  let ?a = "activeEmployees soc"
  let ?inc = "or_zero (includedEmployees rule)"
  let ?ex = "or_zero (excessPrice rule)"
  let ?mn = "or_zero (minEmployees rule)"
  from nonneg have pos: "js_le (Fin 0) (basePrice rule)" "js_le (Fin 0) ?inc"
    "js_le (Fin 0) ?ex" "js_le (Fin 0) ?mn"
    by (simp_all add: rule_fields_nonneg_def or_zero_nonneg)
  from finite have fin: "\<not> is_inf (basePrice rule)" "\<not> is_inf ?inc" "\<not> is_inf ?ex"
    "\<not> is_inf ?mn"
    by (simp_all add: rule_fields_finite_def or_zero_not_inf finite_double_not_inf)
  from count have a: "\<not> is_inf ?a" "?a \<noteq> NaN"
    by (auto simp: finite_double_not_inf)
  have tiered: "js_le (Fin 0) (js_add (basePrice rule) (js_mul (js_sub ?a ?inc) ?ex))"
    if "\<not> js_le ?a ?inc"
  proof -
    from count(2) pos(2) fin(2) that
    have "js_le (Fin 0) (js_sub ?a ?inc) \<and> \<not> is_inf (js_sub ?a ?inc)"
      by (rule js_sub_nonneg)
    with pos(3) fin(3) have "js_le (Fin 0) (js_mul (js_sub ?a ?inc) ?ex)"
      by (intro js_mul_nonneg) simp_all
    with pos(1) show ?thesis by (intro js_add_nonneg)
  qed
  have per_head: "js_le (Fin 0) (js_mul (js_max ?a ?mn) (basePrice rule))"
  proof -
    from pos(4) have "?mn \<noteq> NaN" by auto
    with a(2) have "js_max ?a ?mn = ?a \<or> js_max ?a ?mn = ?mn"
      by (rule js_max_either)
    with count(1) pos(4) a(1) fin(4)
    have "js_le (Fin 0) (js_max ?a ?mn)" "\<not> is_inf (js_max ?a ?mn)"
      by auto
    with pos(1) fin(1) show ?thesis by (intro js_mul_nonneg)
  qed
  from tiered per_head pos(1) show ?thesis
    by (simp add: calculateBill_def Let_def)
qed

lemma sample_keys:
  "cleanCnpj (SocData.cnpj sample_punctuated) = ''12345678000190''"
  "cleanCnpj (SocData.cnpj sample_plain) = ''12345678000190''"
  "cleanCnpj (SocData.cnpj sample_other) = ''99''"
  "cleanCnpj (PricingRule.cnpj sample_tiered) = ''12345678000190''"
  "cleanCnpj (PricingRule.cnpj sample_flat) = ''12345678000190''"
  "cleanCnpj (PricingRule.cnpj sample_per_head) = ''77''"
  by (simp_all add: cleanCnpj_def is_digit_def sample_punctuated_def sample_plain_def
        sample_other_def sample_tiered_def sample_flat_def sample_per_head_def)

lemma sample_ids:
  "SocData.cnpj sample_punctuated = ''12.345.678/0001-90''"
  "SocData.cnpj sample_plain = ''12345678000190''"
  "SocData.cnpj sample_other = ''99''"
  by (simp_all add: sample_punctuated_def sample_plain_def sample_other_def)

lemma reconcileData_single:
  assumes "held_rule_matches item"
  shows "reconcileData [(socData item)\<lparr>activeEmployees := n\<rparr>]
           (case pricingRule item of None \<Rightarrow> [] | Some r \<Rightarrow> [r])
         = [calculateBill ((socData item)\<lparr>activeEmployees := n\<rparr>) (pricingRule item)]"
  using assms
  by (cases "pricingRule item")
     (simp_all add: reconcileData_map rulesMap_def held_rule_matches_def)

lemma held_rule_matches_calculateBill:
  "held_rule_matches (calculateBill soc ruleOpt) \<longleftrightarrow>
     (\<forall>r. ruleOpt = Some r \<longrightarrow> cleanCnpj (PricingRule.cnpj r) = cleanCnpj (SocData.cnpj soc))"
  by (simp add: held_rule_matches_def split: option.splits)

lemma held_results_match:
  assumes "results \<in> held_results"
  shows "\<forall>item \<in> set results. held_rule_matches item"
  using assms
proof (induction rule: held_results.induct)
  case initial
  show ?case by simp
next
  case (loaded socList pricingData)
  show ?case
    using rulesMap_Some
    by (auto simp: handleDataLoaded_def reconcileData_map held_rule_matches_calculateBill)
next
  case (updated prev c newEmployees)
  then show ?case
    by (auto simp: handleUpdate_def Let_def held_rule_matches_calculateBill held_rule_matches_def
             split: option.splits)
next
  case (deleted prev c)
  then show ?case by (simp add: handleDelete_def)
qed

lemma status_tracks_rule_calculateBill: "status_tracks_rule (calculateBill soc ruleOpt)"
  by (simp add: status_tracks_rule_def calculateBill_status split: option.splits)

lemma held_results_status:
  assumes "results \<in> held_results"
  shows "\<forall>res \<in> set results. status_tracks_rule res"
  using assms
proof (induction rule: held_results.induct)
  case initial
  show ?case by simp
next
  case (loaded socList pricingData)
  show ?case
    by (auto simp: handleDataLoaded_def reconcileData_map status_tracks_rule_calculateBill)
next
  case (updated prev c newEmployees)
  then show ?case
    by (auto simp: handleUpdate_def Let_def status_tracks_rule_calculateBill)
next
  case (deleted prev c)
  then show ?case by (simp add: handleDelete_def)
qed

section \<open>The pricing formulas\<close>

text \<open>
  C1. Under a rule of model TIERED, with the included count and the excess rate read
  through \<open>|| 0\<close> (an absent, NaN or zero field gives 0): when the active count is
  at most the included count the amount is the base price and the text is the flat
  one; otherwise the amount is the base price plus the excess count times the excess
  rate, in the arithmetic of doubles, and the text is the one with the excess. A count
  equal to the included count takes the flat branch.
\<close>

theorem calculateBill_TIERED:
  assumes "model rule = TIERED"
  shows "(let included = (case includedEmployees rule of
                            None \<Rightarrow> Fin 0
                          | Some v \<Rightarrow> if v = NaN \<or> v = NegZero then Fin 0 else v);
              excessRate = (case excessPrice rule of
                              None \<Rightarrow> Fin 0
                            | Some v \<Rightarrow> if v = NaN \<or> v = NegZero then Fin 0 else v);
              res = calculateBill soc (Some rule)
          in (js_le (activeEmployees soc) included \<longrightarrow>
                calculatedAmount res = basePrice rule
                \<and> details res =
                    [Lit (''Fixo (At'' @ [CHR 0xE9] @ '' ''), Num included, Lit '' func.)''])
             \<and> (\<not> js_le (activeEmployees soc) included \<longrightarrow>
                calculatedAmount res =
                  js_add (basePrice rule)
                    (js_mul (js_sub (activeEmployees soc) included) excessRate)
                \<and> details res =
                    [Lit ''Base R$'', Num (basePrice rule), Lit '' + ('',
                     Num (js_sub (activeEmployees soc) included),
                     Lit '' extras x R$'', Num excessRate, Lit '')''])
             \<and> (activeEmployees soc = included \<longrightarrow>
                calculatedAmount res = basePrice rule
                \<and> details res =
                    [Lit (''Fixo (At'' @ [CHR 0xE9] @ '' ''), Num included, Lit '' func.)'']))"
proof -
  have boundary: "js_le (or_zero (includedEmployees rule)) (or_zero (includedEmployees rule))"
    by (intro js_le_refl or_zero_not_NaN)
  show ?thesis
    using assms boundary
    by (auto simp: calculateBill_def Let_def or_zero_eq [symmetric])
qed

theorem calculateBill_TIERED_witness:
  "calculatedAmount (calculateBill sample_punctuated (Some sample_cents))
     = Fin (1483021283544269 / 8796093022208)
   \<and> calculatedAmount (calculateBill sample_boundary (Some sample_cents))
     = Fin (4570449934339277 / 35184372088832)
   \<and> details (calculateBill sample_boundary (Some sample_cents))
     = [Lit (''Fixo (At'' @ [CHR 0xE9] @ '' ''), Num (Fin 5), Lit '' func.)'']
   \<and> calculatedAmount (calculateBill sample_other (Some sample_large)) = Fin 9007199254740992"
proof -
  have cents: "model sample_cents = TIERED" and large: "model sample_large = TIERED"
    by (simp_all add: sample_cents_def sample_large_def TIERED_def)
  have above: "\<not> js_le (Fin 8) (Fin 5)" "\<not> js_le (Fin 2) (Fin 1)"
    by (simp_all add: js_le_def)
  have sum_cents:
    "js_add (Fin (4570449934339277 / 35184372088832))
       (js_mul (js_sub (Fin 8) (Fin 5)) (Fin (7262054399134925 / 562949953421312)))
     = Fin (1483021283544269 / 8796093022208)"
    by code_simp
  have sum_large:
    "js_add (Fin 9007199254740992) (js_mul (js_sub (Fin 2) (Fin 1)) (Fin 1))
     = Fin 9007199254740992"
    by code_simp
  have fields:
    "activeEmployees sample_punctuated = Fin 8" "activeEmployees sample_boundary = Fin 5"
    "activeEmployees sample_other = Fin 2"
    "basePrice sample_cents = Fin (4570449934339277 / 35184372088832)"
    "includedEmployees sample_cents = Some (Fin 5)"
    "excessPrice sample_cents = Some (Fin (7262054399134925 / 562949953421312))"
    "basePrice sample_large = Fin 9007199254740992"
    "includedEmployees sample_large = Some (Fin 1)"
    "excessPrice sample_large = Some (Fin 1)"
    by (simp_all add: sample_punctuated_def sample_boundary_def sample_other_def
          sample_cents_def sample_large_def)
  from calculateBill_TIERED [OF cents, of sample_punctuated] above(1)
  have 1: "calculatedAmount (calculateBill sample_punctuated (Some sample_cents))
     = Fin (1483021283544269 / 8796093022208)"
    by (simp add: Let_def fields sum_cents)
  from calculateBill_TIERED [OF cents, of sample_boundary]
  have 2: "calculatedAmount (calculateBill sample_boundary (Some sample_cents))
     = Fin (4570449934339277 / 35184372088832)
   \<and> details (calculateBill sample_boundary (Some sample_cents))
     = [Lit (''Fixo (At'' @ [CHR 0xE9] @ '' ''), Num (Fin 5), Lit '' func.)'']"
    by (simp add: Let_def fields js_le_def)
  from calculateBill_TIERED [OF large, of sample_other] above(2)
  have 3: "calculatedAmount (calculateBill sample_other (Some sample_large)) = Fin 9007199254740992"
    by (simp add: Let_def fields sum_large)
  from 1 2 3 show ?thesis by (simp only:)
qed

text \<open>
  C2. Under a rule of model PER_HEAD_MIN the amount is \<open>Math.max\<close> of the active
  count and the minimum count (read through \<open>|| 0\<close>), times \<open>basePrice\<close>, which this
  model reads as the price per head, in the arithmetic of doubles; the text names the
  billed count, the rate and the minimum.
\<close>

theorem calculateBill_PER_HEAD_MIN:
  assumes "model rule = PER_HEAD_MIN"
  shows "(let minimum = (case minEmployees rule of
                           None \<Rightarrow> Fin 0
                         | Some v \<Rightarrow> if v = NaN \<or> v = NegZero then Fin 0 else v);
              billableCount = js_max (activeEmployees soc) minimum;
              res = calculateBill soc (Some rule)
          in calculatedAmount res = js_mul billableCount (basePrice rule)
             \<and> details res =
                 [Num billableCount, Lit '' faturados x R$'', Num (basePrice rule),
                  Lit ('' (M'' @ [CHR 0xED] @ ''nimo: ''), Num minimum, Lit '')''])"
  using assms
  by (simp add: calculateBill_def Let_def TIERED_def PER_HEAD_MIN_def or_zero_eq [symmetric])

theorem calculateBill_PER_HEAD_MIN_witness:
  "calculatedAmount (calculateBill sample_other (Some sample_tenth))
     = Fin (1351079888211149 / 4503599627370496)
   \<and> calculatedAmount (calculateBill sample_plain (Some sample_per_head)) = Fin 130
   \<and> calculatedAmount (calculateBill sample_punctuated (Some sample_unbounded)) = PosInf"
proof -
  have models: "model sample_tenth = PER_HEAD_MIN" "model sample_per_head = PER_HEAD_MIN"
    "model sample_unbounded = PER_HEAD_MIN"
    by (simp_all add: sample_tenth_def sample_per_head_def sample_unbounded_def PER_HEAD_MIN_def)
  have products:
    "js_mul (js_max (Fin 2) (Fin 3)) (Fin (3602879701896397 / 36028797018963968))
     = Fin (1351079888211149 / 4503599627370496)"
    "js_mul (js_max (Fin 4) (Fin 10)) (Fin 13) = Fin 130"
    "js_mul (js_max (Fin 8) (Fin 0)) PosInf = PosInf"
    by code_simp+
  have fields:
    "activeEmployees sample_punctuated = Fin 8" "activeEmployees sample_plain = Fin 4"
    "activeEmployees sample_other = Fin 2"
    "basePrice sample_tenth = Fin (3602879701896397 / 36028797018963968)"
    "minEmployees sample_tenth = Some (Fin 3)"
    "basePrice sample_per_head = Fin 13" "minEmployees sample_per_head = Some (Fin 10)"
    "basePrice sample_unbounded = PosInf" "minEmployees sample_unbounded = Some (Fin 0)"
    by (simp_all add: sample_punctuated_def sample_plain_def sample_other_def
          sample_tenth_def sample_per_head_def sample_unbounded_def)
  from calculateBill_PER_HEAD_MIN [OF models(1), of sample_other]
  have 1: "calculatedAmount (calculateBill sample_other (Some sample_tenth))
     = Fin (1351079888211149 / 4503599627370496)"
    by (simp add: Let_def fields products)
  from calculateBill_PER_HEAD_MIN [OF models(2), of sample_plain]
  have 2: "calculatedAmount (calculateBill sample_plain (Some sample_per_head)) = Fin 130"
    by (simp add: Let_def fields products)
  from calculateBill_PER_HEAD_MIN [OF models(3), of sample_punctuated]
  have 3: "calculatedAmount (calculateBill sample_punctuated (Some sample_unbounded)) = PosInf"
    by (simp add: Let_def fields products)
  from 1 2 3 show ?thesis by (simp only:)
qed

text \<open>
  C6. A rule that is present but whose model is none of TIERED, PER_HEAD_MIN and FLAT
  is billed 0 with the message that the model is unknown, under status READY; the
  status MISSING_RULE is produced exactly when no rule is given.
\<close>

theorem calculateBill_unknown_model:
  "(model rule \<noteq> TIERED \<and> model rule \<noteq> PER_HEAD_MIN \<and> model rule \<noteq> FLAT \<longrightarrow>
      calculatedAmount (calculateBill soc (Some rule)) = Fin 0
      \<and> details (calculateBill soc (Some rule)) = [Lit msg_unknown_model]
      \<and> status (calculateBill soc (Some rule)) = READY)
   \<and> (status (calculateBill soc ruleOpt) = MISSING_RULE \<longleftrightarrow> ruleOpt = None)"
  by (auto simp: calculateBill_def Let_def split: option.splits prod.splits)

theorem calculateBill_unknown_model_witness:
  "calculateBill
      \<lparr>SocData.cnpj = ''1'', companyName = ''ACME'', activeEmployees = Fin 7\<rparr>
      (Some \<lparr>PricingRule.cnpj = ''1'', model = ''HOURLY'', basePrice = Fin 50,
             includedEmployees = Some (Fin 5), excessPrice = Some (Fin 12), minEmployees = Some (Fin 3)\<rparr>)
   = \<lparr>socData = \<lparr>SocData.cnpj = ''1'', companyName = ''ACME'', activeEmployees = Fin 7\<rparr>,
      pricingRule = Some \<lparr>PricingRule.cnpj = ''1'', model = ''HOURLY'', basePrice = Fin 50,
             includedEmployees = Some (Fin 5), excessPrice = Some (Fin 12), minEmployees = Some (Fin 3)\<rparr>,
      calculatedAmount = Fin 0, details = [Lit ''Modelo desconhecido''], status = READY\<rparr>"
proof -
  let ?soc = "\<lparr>SocData.cnpj = ''1'', companyName = ''ACME'', activeEmployees = Fin 7\<rparr>"
  let ?rule = "\<lparr>PricingRule.cnpj = ''1'', model = ''HOURLY'', basePrice = Fin 50,
             includedEmployees = Some (Fin 5), excessPrice = Some (Fin 12), minEmployees = Some (Fin 3)\<rparr>"
  have unknown: "model ?rule \<noteq> TIERED \<and> model ?rule \<noteq> PER_HEAD_MIN \<and> model ?rule \<noteq> FLAT"
    by (simp add: TIERED_def PER_HEAD_MIN_def FLAT_def)
  have fields: "socData (calculateBill ?soc (Some ?rule)) = ?soc
              \<and> pricingRule (calculateBill ?soc (Some ?rule)) = Some ?rule"
    by (simp add: calculateBill_def Let_def split: prod.splits)
  from calculateBill_unknown_model [of ?rule ?soc] unknown
  have "calculatedAmount (calculateBill ?soc (Some ?rule)) = Fin 0
      \<and> details (calculateBill ?soc (Some ?rule)) = [Lit msg_unknown_model]
      \<and> status (calculateBill ?soc (Some ?rule)) = READY"
    by blast
  with fields show ?thesis
    by (cases "calculateBill ?soc (Some ?rule)") (simp add: msg_unknown_model_def)
qed

section \<open>Reconciliation\<close>

text \<open>
  C3. \<open>reconcileData\<close> returns one result per record, in the order of the records:
  the output is as long as the record list, its \<open>i\<close>-th result is the bill of the
  \<open>i\<close>-th record, and the records read back from the results are the input list
  itself, so nothing is dropped, merged or moved.
\<close>

theorem reconcileData_order:
  "length (reconcileData socList rulesList) = length socList
   \<and> map socData (reconcileData socList rulesList) = socList
   \<and> (\<forall>i < length socList.
         reconcileData socList rulesList ! i =
           calculateBill (socList ! i) (rulesMap rulesList (cleanCnpj (SocData.cnpj (socList ! i)))))"
  by (simp add: reconcileData_map comp_def)

theorem reconcileData_order_witness:
  "length (reconcileData [sample_punctuated, sample_other, sample_punctuated] [sample_tiered]) = 3
   \<and> map socData (reconcileData [sample_punctuated, sample_other, sample_punctuated] [sample_tiered])
       = [sample_punctuated, sample_other, sample_punctuated]
   \<and> reconcileData [sample_punctuated, sample_other, sample_punctuated] [sample_tiered] ! 1
       = calculateBill sample_other None
   \<and> reconcileData [sample_punctuated, sample_other, sample_punctuated] [sample_tiered] ! 2
       = calculateBill sample_punctuated (Some sample_tiered)"
  using reconcileData_order
          [of "[sample_punctuated, sample_other, sample_punctuated]" "[sample_tiered]"]
  by (simp add: rulesMap_def sample_keys)

text \<open>
  C4. When several rules have the same cleaned identifier, a record with that cleaned
  identifier is billed under the one that comes last in the rule list: whatever rules
  stand before it, the rule after which no rule has its key is the one used.
\<close>

theorem reconcileData_last_rule_wins:
  assumes "i < length socList"
    and "cleanCnpj (SocData.cnpj (socList ! i)) = cleanCnpj (PricingRule.cnpj r)"
    and "\<forall>r' \<in> set after. cleanCnpj (PricingRule.cnpj r') \<noteq> cleanCnpj (PricingRule.cnpj r)"
  shows "reconcileData socList (before @ r # after) ! i = calculateBill (socList ! i) (Some r)"
  using assms by (simp add: reconcileData_map rulesMap_last_occurrence)

theorem reconcileData_last_rule_wins_witness:
  "reconcileData [sample_other, sample_plain] [sample_tiered, sample_flat, sample_per_head] ! 1
     = calculateBill sample_plain (Some sample_flat)"
  using reconcileData_last_rule_wins
          [of 1 "[sample_other, sample_plain]" sample_flat "[sample_per_head]" "[sample_tiered]"]
  by (simp add: sample_keys)

text \<open>
  C7. \<open>cleanCnpj\<close> keeps the decimal digits of its argument and removes every other
  character; the empty string gives the empty string. \<open>reconcileData\<close> gives a
  record a rule exactly when some rule has the same cleaned identifier, and the rule
  given has that cleaned identifier; the identifiers 12.345.678/0001-90 and
  12345678000190 have the same cleaned form.
\<close>

theorem cleanCnpj_matching:
  "cleanCnpj s = filter is_digit s
   \<and> (\<forall>c \<in> set (cleanCnpj s). is_digit c)
   \<and> cleanCnpj [] = []
   \<and> cleanCnpj ''12.345.678/0001-90'' = cleanCnpj ''12345678000190''
   \<and> (\<forall>i < length socList.
        (pricingRule (reconcileData socList rulesList ! i) \<noteq> None \<longleftrightarrow>
           (\<exists>r \<in> set rulesList.
              cleanCnpj (PricingRule.cnpj r) = cleanCnpj (SocData.cnpj (socList ! i))))
        \<and> (\<forall>r. pricingRule (reconcileData socList rulesList ! i) = Some r \<longrightarrow>
              r \<in> set rulesList
              \<and> cleanCnpj (PricingRule.cnpj r) = cleanCnpj (SocData.cnpj (socList ! i))))"
proof -
  have example: "cleanCnpj ''12.345.678/0001-90'' = cleanCnpj ''12345678000190''"
    by (simp add: cleanCnpj_def is_digit_def)
  have lookup: "(pricingRule (reconcileData socList rulesList ! i) \<noteq> None \<longleftrightarrow>
           (\<exists>r \<in> set rulesList.
              cleanCnpj (PricingRule.cnpj r) = cleanCnpj (SocData.cnpj (socList ! i))))
        \<and> (\<forall>r. pricingRule (reconcileData socList rulesList ! i) = Some r \<longrightarrow>
              r \<in> set rulesList
              \<and> cleanCnpj (PricingRule.cnpj r) = cleanCnpj (SocData.cnpj (socList ! i)))"
    if "i < length socList" for i
    using that rulesMap_None [of rulesList "cleanCnpj (SocData.cnpj (socList ! i))"]
      rulesMap_Some [of rulesList "cleanCnpj (SocData.cnpj (socList ! i))"]
    by (simp add: reconcileData_map)
  from example lookup show ?thesis
    by (simp add: cleanCnpj_filter)
qed

theorem cleanCnpj_matching_witness:
  "cleanCnpj ''12.345.678/0001-90'' = ''12345678000190''
   \<and> is_digit (CHR ''9'')
   \<and> pricingRule (reconcileData [sample_plain] [sample_tiered] ! 0) = Some sample_tiered"
proof -
  let ?res = "reconcileData [sample_plain] [sample_tiered] ! 0"
  have digits: "filter is_digit ''12.345.678/0001-90'' = ''12345678000190''"
    by (simp add: is_digit_def)
  have same: "\<exists>r \<in> set [sample_tiered].
      cleanCnpj (PricingRule.cnpj r) = cleanCnpj (SocData.cnpj ([sample_plain] ! 0))"
    by (simp add: sample_keys)
  have len: "0 < length [sample_plain]"
    by simp
  note inst = cleanCnpj_matching [of "''12.345.678/0001-90''" "[sample_plain]" "[sample_tiered]"]
  from inst digits have first: "cleanCnpj ''12.345.678/0001-90'' = ''12345678000190''"
    by (simp only:)
  then have "CHR ''9'' \<in> set (cleanCnpj ''12.345.678/0001-90'')"
    by simp
  with inst have nine: "is_digit (CHR ''9'')"
    by blast
  from inst len same have "pricingRule ?res \<noteq> None"
    by blast
  then obtain r where r: "pricingRule ?res = Some r"
    by (auto simp only: not_None_eq)
  with inst len have "r \<in> set [sample_tiered]"
    by blast
  then have "r = sample_tiered"
    by simp
  with r first nine show ?thesis
    by (simp only:)
qed

section \<open>Invariants of the results\<close>

text \<open>
  C5. A result of \<open>calculateBill\<close>, and so every result of \<open>reconcileData\<close>, has a
  non-negative amount when it is READY and the active count and the numeric fields of
  its rule are finite and non-negative; when it is MISSING_RULE its amount is 0, it
  carries no rule and its text is the fixed message that the rule was not found.
  A record that no rule matches gets amount 0 and status MISSING_RULE.
\<close>

theorem billing_amount_invariant:
  "(status (calculateBill soc ruleOpt) = READY
      \<and> js_le (Fin 0) (activeEmployees soc) \<and> finite_double (activeEmployees soc)
      \<and> (\<forall>rule. ruleOpt = Some rule \<longrightarrow> rule_fields_nonneg rule \<and> rule_fields_finite rule)
      \<longrightarrow> js_le (Fin 0) (calculatedAmount (calculateBill soc ruleOpt)))
   \<and> (status (calculateBill soc ruleOpt) = MISSING_RULE
      \<longrightarrow> calculatedAmount (calculateBill soc ruleOpt) = Fin 0
          \<and> pricingRule (calculateBill soc ruleOpt) = None
          \<and> details (calculateBill soc ruleOpt) = [Lit msg_missing_rule])
   \<and> (\<forall>res \<in> set (reconcileData socList rulesList).
        (status res = READY
           \<and> js_le (Fin 0) (activeEmployees (socData res))
           \<and> finite_double (activeEmployees (socData res))
           \<and> (\<forall>rule. pricingRule res = Some rule \<longrightarrow>
                 rule_fields_nonneg rule \<and> rule_fields_finite rule)
           \<longrightarrow> js_le (Fin 0) (calculatedAmount res))
        \<and> (status res = MISSING_RULE
           \<longrightarrow> calculatedAmount res = Fin 0 \<and> pricingRule res = None
               \<and> details res = [Lit msg_missing_rule]))
   \<and> (\<forall>i < length socList.
        (\<forall>r \<in> set rulesList.
            cleanCnpj (PricingRule.cnpj r) \<noteq> cleanCnpj (SocData.cnpj (socList ! i)))
        \<longrightarrow> calculatedAmount (reconcileData socList rulesList ! i) = Fin 0
            \<and> status (reconcileData socList rulesList ! i) = MISSING_RULE)"
proof -
  have price: "(status (calculateBill s ro) = READY
      \<and> js_le (Fin 0) (activeEmployees s) \<and> finite_double (activeEmployees s)
      \<and> (\<forall>rule. ro = Some rule \<longrightarrow> rule_fields_nonneg rule \<and> rule_fields_finite rule)
      \<longrightarrow> js_le (Fin 0) (calculatedAmount (calculateBill s ro)))
   \<and> (status (calculateBill s ro) = MISSING_RULE
      \<longrightarrow> calculatedAmount (calculateBill s ro) = Fin 0
          \<and> pricingRule (calculateBill s ro) = None
          \<and> details (calculateBill s ro) = [Lit msg_missing_rule])" for s ro
  proof (cases ro)
    case None
    then show ?thesis by (simp add: calculateBill_None)
  next
    case (Some rule)
    then show ?thesis by (simp add: calculateBill_status calculateBill_nonneg)
  qed
  have unmatched: "calculatedAmount (reconcileData socList rulesList ! i) = Fin 0
            \<and> status (reconcileData socList rulesList ! i) = MISSING_RULE"
    if "i < length socList"
      and "\<forall>r \<in> set rulesList.
            cleanCnpj (PricingRule.cnpj r) \<noteq> cleanCnpj (SocData.cnpj (socList ! i))" for i
  proof -
    from that(2) have "rulesMap rulesList (cleanCnpj (SocData.cnpj (socList ! i))) = None"
      by (simp add: rulesMap_None)
    with that(1) show ?thesis
      by (simp add: reconcileData_map calculateBill_None)
  qed
  have each: "(status res = READY
           \<and> js_le (Fin 0) (activeEmployees (socData res))
           \<and> finite_double (activeEmployees (socData res))
           \<and> (\<forall>rule. pricingRule res = Some rule \<longrightarrow>
                 rule_fields_nonneg rule \<and> rule_fields_finite rule)
           \<longrightarrow> js_le (Fin 0) (calculatedAmount res))
        \<and> (status res = MISSING_RULE
           \<longrightarrow> calculatedAmount res = Fin 0 \<and> pricingRule res = None
               \<and> details res = [Lit msg_missing_rule])"
    if "res \<in> set (reconcileData socList rulesList)" for res
  proof -
    from that obtain s ro where "res = calculateBill s ro"
      by (auto simp: reconcileData_map)
    with price [of s ro] show ?thesis by simp
  qed
  from price [of soc ruleOpt] unmatched each show ?thesis by blast
qed

theorem billing_amount_invariant_witness:
  "js_le (Fin 0) (calculatedAmount (calculateBill sample_punctuated (Some sample_tiered)))
   \<and> calculatedAmount (calculateBill sample_other None) = Fin 0
   \<and> pricingRule (calculateBill sample_other None) = None
   \<and> details (calculateBill sample_other None) = [Lit msg_missing_rule]
   \<and> js_le (Fin 0)
       (calculatedAmount (reconcileData [sample_punctuated, sample_other] [sample_tiered] ! 0))
   \<and> calculatedAmount (reconcileData [sample_punctuated, sample_other] [sample_tiered] ! 1) = Fin 0
   \<and> status (reconcileData [sample_punctuated, sample_other] [sample_tiered] ! 1) = MISSING_RULE"
proof -
  let ?out = "reconcileData [sample_punctuated, sample_other] [sample_tiered]"
  have out: "?out = [calculateBill sample_punctuated (Some sample_tiered),
                     calculateBill sample_other None]"
    by (simp add: reconcileData_map rulesMap_def sample_keys)
  have ready: "status (calculateBill sample_punctuated (Some sample_tiered)) = READY"
    by (simp add: calculateBill_status)
  have missing: "status (calculateBill sample_other None) = MISSING_RULE"
    by (simp add: calculateBill_status)
  have small: "finite_double (Fin 8)" "finite_double (Fin 129)" "finite_double (Fin 5)"
    "finite_double (Fin 12)"
    by code_simp+
  have count: "js_le (Fin 0) (activeEmployees sample_punctuated)"
    "finite_double (activeEmployees sample_punctuated)"
    by (simp_all add: sample_punctuated_def small del: finite_double.simps)
  have fields: "rule_fields_nonneg sample_tiered" "rule_fields_finite sample_tiered"
    by (simp_all add: rule_fields_nonneg_def rule_fields_finite_def sample_tiered_def small
          del: finite_double.simps)
  have first: "?out ! 0 \<in> set ?out" "status (?out ! 0) = READY"
    "js_le (Fin 0) (activeEmployees (socData (?out ! 0)))"
    "finite_double (activeEmployees (socData (?out ! 0)))"
    "\<forall>rule. pricingRule (?out ! 0) = Some rule \<longrightarrow>
       rule_fields_nonneg rule \<and> rule_fields_finite rule"
    unfolding out by (simp_all add: ready count fields)
  have unmatched: "(1::nat) < length [sample_punctuated, sample_other]"
    "\<forall>r \<in> set [sample_tiered].
      cleanCnpj (PricingRule.cnpj r) \<noteq> cleanCnpj (SocData.cnpj ([sample_punctuated, sample_other] ! 1))"
    by (simp_all add: sample_keys)
  from billing_amount_invariant
         [of sample_punctuated "Some sample_tiered" "[sample_punctuated, sample_other]"
             "[sample_tiered]"]
       ready count fields first unmatched
  have "js_le (Fin 0) (calculatedAmount (calculateBill sample_punctuated (Some sample_tiered)))
    \<and> js_le (Fin 0) (calculatedAmount (?out ! 0))
    \<and> calculatedAmount (?out ! 1) = Fin 0 \<and> status (?out ! 1) = MISSING_RULE"
    by blast
  moreover
  from billing_amount_invariant [of sample_other None "[]" "[]"] missing
  have "calculatedAmount (calculateBill sample_other None) = Fin 0
   \<and> pricingRule (calculateBill sample_other None) = None
   \<and> details (calculateBill sample_other None) = [Lit msg_missing_rule]"
    by blast
  ultimately show ?thesis by blast
qed

text \<open>
  Without finiteness the bound fails: a record with no active employee under a
  per-head contract whose price is infinite and whose minimum is 0 has all its
  numbers at least 0, and is billed \<open>0 * Infinity\<close>, which is NaN, under READY.
\<close>

theorem billing_amount_nan_counterexample:
  "status (calculateBill sample_idle (Some sample_unbounded)) = READY
   \<and> js_le (Fin 0) (activeEmployees sample_idle)
   \<and> rule_fields_nonneg sample_unbounded
   \<and> calculatedAmount (calculateBill sample_idle (Some sample_unbounded)) = NaN
   \<and> \<not> js_le (Fin 0) (calculatedAmount (calculateBill sample_idle (Some sample_unbounded)))"
proof -
  have amount: "calculatedAmount (calculateBill sample_idle (Some sample_unbounded)) = NaN"
    by (simp add: calculateBill_def Let_def sample_idle_def sample_unbounded_def
          TIERED_def PER_HEAD_MIN_def js_max_def js_lt_def js_le_def js_mul_def)
  have given: "js_le (Fin 0) (activeEmployees sample_idle)" "rule_fields_nonneg sample_unbounded"
    by (simp_all add: sample_idle_def sample_unbounded_def rule_fields_nonneg_def)
  from amount given show ?thesis
    by (simp add: calculateBill_status)
qed

text \<open>
  C10. A result of \<open>calculateBill\<close> is READY exactly when a rule was given and
  MISSING_RULE exactly when none was, and then it carries no rule; the same holds for
  the results of \<open>reconcileData\<close> with respect to the lookup, and for the results that
  \<open>handleUpdate\<close> recomputes with respect to the rule held. The status MISSING_SOC is
  produced by none of them, and no list the state can hold contains it.
\<close>

theorem status_follows_rule:
  "(status (calculateBill soc ruleOpt) = READY \<longleftrightarrow> ruleOpt \<noteq> None)
   \<and> (status (calculateBill soc ruleOpt) = MISSING_RULE \<longleftrightarrow> ruleOpt = None)
   \<and> (ruleOpt = None \<longrightarrow> pricingRule (calculateBill soc ruleOpt) = None)
   \<and> status (calculateBill soc ruleOpt) \<noteq> MISSING_SOC
   \<and> (\<forall>i < length socList.
        (status (reconcileData socList rulesList ! i) = READY \<longleftrightarrow>
           rulesMap rulesList (cleanCnpj (SocData.cnpj (socList ! i))) \<noteq> None)
        \<and> (status (reconcileData socList rulesList ! i) = MISSING_RULE \<longleftrightarrow>
           rulesMap rulesList (cleanCnpj (SocData.cnpj (socList ! i))) = None)
        \<and> (rulesMap rulesList (cleanCnpj (SocData.cnpj (socList ! i))) = None \<longrightarrow>
             pricingRule (reconcileData socList rulesList ! i) = None)
        \<and> status (reconcileData socList rulesList ! i) \<noteq> MISSING_SOC)
   \<and> (\<forall>i < length prev. SocData.cnpj (socData (prev ! i)) = c \<longrightarrow>
        (status (handleUpdate c n prev ! i) = READY \<longleftrightarrow> pricingRule (prev ! i) \<noteq> None)
        \<and> (status (handleUpdate c n prev ! i) = MISSING_RULE \<longleftrightarrow> pricingRule (prev ! i) = None)
        \<and> (pricingRule (prev ! i) = None \<longrightarrow> pricingRule (handleUpdate c n prev ! i) = None)
        \<and> status (handleUpdate c n prev ! i) \<noteq> MISSING_SOC)
   \<and> (results \<in> held_results \<longrightarrow> (\<forall>res \<in> set results. status_tracks_rule res))"
  using held_results_status [of results]
  by (simp add: calculateBill_status reconcileData_map handleUpdate_def Let_def
           split: option.splits)

theorem status_follows_rule_witness:
  "status (calculateBill sample_other None) = MISSING_RULE
   \<and> status (reconcileData [sample_punctuated, sample_other] [sample_tiered] ! 0) = READY
   \<and> status (handleUpdate ''99'' (Fin 6)
        (handleDataLoaded [sample_punctuated, sample_other] [sample_tiered]) ! 1) = MISSING_RULE
   \<and> status_tracks_rule (handleUpdate ''99'' (Fin 6)
        (handleDataLoaded [sample_punctuated, sample_other] [sample_tiered]) ! 1)"
proof -
  let ?loaded = "handleDataLoaded [sample_punctuated, sample_other] [sample_tiered]"
  let ?upd = "handleUpdate ''99'' (Fin 6) ?loaded"
  have loaded: "?loaded = [calculateBill sample_punctuated (Some sample_tiered),
                           calculateBill sample_other None]"
    by (simp add: handleDataLoaded_def reconcileData_map rulesMap_def sample_keys)
  have reach: "?upd \<in> held_results"
    by (intro held_results.updated held_results.loaded)
  have mem: "?upd ! 1 \<in> set ?upd"
    unfolding loaded by (simp add: handleUpdate_def)
  have pre: "(1::nat) < length ?loaded" "SocData.cnpj (socData (?loaded ! 1)) = ''99''"
            "pricingRule (?loaded ! 1) = None"
    unfolding loaded by (simp_all add: sample_ids)
  have pre': "(0::nat) < length [sample_punctuated, sample_other]"
            "rulesMap [sample_tiered] (cleanCnpj (SocData.cnpj ([sample_punctuated, sample_other] ! 0))) \<noteq> None"
    by (simp_all add: rulesMap_def sample_keys)
  from status_follows_rule
         [of sample_other None "[sample_punctuated, sample_other]" "[sample_tiered]"
             ?loaded "''99''" "Fin 6" ?upd]
       reach mem pre pre'
  show ?thesis by blast
qed

section \<open>Updating the active count\<close>

text \<open>
  C8. \<open>handleUpdate\<close> keeps the length of the list; a result whose record has exactly
  the given raw identifier is replaced by the bill of that record with the new active
  count under the rule the result held, and every other result is left as it was.
  Where the held rule is a matched one, the replaced result is what \<open>reconcileData\<close>
  returns for that single record and that single rule; every list the state can hold
  has matched rules only.
\<close>

theorem handleUpdate_frame:
  "length (handleUpdate c n prev) = length prev
   \<and> (\<forall>i < length prev.
        (SocData.cnpj (socData (prev ! i)) = c \<longrightarrow>
           handleUpdate c n prev ! i =
             calculateBill ((socData (prev ! i))\<lparr>activeEmployees := n\<rparr>) (pricingRule (prev ! i))
           \<and> (held_rule_matches (prev ! i) \<longrightarrow>
                reconcileData [(socData (prev ! i))\<lparr>activeEmployees := n\<rparr>]
                  (case pricingRule (prev ! i) of None \<Rightarrow> [] | Some r \<Rightarrow> [r])
                = [handleUpdate c n prev ! i]))
        \<and> (SocData.cnpj (socData (prev ! i)) \<noteq> c \<longrightarrow> handleUpdate c n prev ! i = prev ! i))
   \<and> (prev \<in> held_results \<longrightarrow> (\<forall>item \<in> set prev. held_rule_matches item))"
  using held_results_match [of prev]
  by (simp add: handleUpdate_def Let_def reconcileData_single)

theorem handleUpdate_frame_witness:
  "handleUpdate ''12345678000190'' (Fin 10) (handleDataLoaded [sample_punctuated, sample_plain] [sample_tiered]) ! 0
     = calculateBill sample_punctuated (Some sample_tiered)
   \<and> handleUpdate ''12345678000190'' (Fin 10) (handleDataLoaded [sample_punctuated, sample_plain] [sample_tiered]) ! 1
     = calculateBill (sample_plain\<lparr>activeEmployees := Fin 10\<rparr>) (Some sample_tiered)
   \<and> reconcileData [sample_plain\<lparr>activeEmployees := Fin 10\<rparr>] [sample_tiered]
     = [handleUpdate ''12345678000190'' (Fin 10)
          (handleDataLoaded [sample_punctuated, sample_plain] [sample_tiered]) ! 1]"
proof -
  let ?prev = "handleDataLoaded [sample_punctuated, sample_plain] [sample_tiered]"
  have prev: "?prev = [calculateBill sample_punctuated (Some sample_tiered),
                       calculateBill sample_plain (Some sample_tiered)]"
    by (simp add: handleDataLoaded_def reconcileData_map rulesMap_def sample_keys)
  have held: "?prev \<in> held_results"
    by (rule held_results.loaded)
  have ids: "SocData.cnpj (socData (?prev ! 0)) \<noteq> ''12345678000190''"
            "SocData.cnpj (socData (?prev ! 1)) = ''12345678000190''"
    unfolding prev by (simp_all add: sample_ids)
  have len: "0 < length ?prev" "1 < length ?prev" "?prev ! 1 \<in> set ?prev"
    unfolding prev by simp_all
  note inst = handleUpdate_frame [of "''12345678000190''" "Fin 10" ?prev]
  from inst held len have matched: "held_rule_matches (?prev ! 1)"
    by blast
  from inst ids matched len
  have "handleUpdate ''12345678000190'' (Fin 10) ?prev ! 0 = ?prev ! 0
      \<and> handleUpdate ''12345678000190'' (Fin 10) ?prev ! 1
          = calculateBill ((socData (?prev ! 1))\<lparr>activeEmployees := Fin 10\<rparr>) (pricingRule (?prev ! 1))
      \<and> reconcileData [(socData (?prev ! 1))\<lparr>activeEmployees := Fin 10\<rparr>]
                  (case pricingRule (?prev ! 1) of None \<Rightarrow> [] | Some r \<Rightarrow> [r])
          = [handleUpdate ''12345678000190'' (Fin 10) ?prev ! 1]"
    by blast
  then show ?thesis
    unfolding prev by simp
qed

text \<open>
  C9. Applying \<open>handleUpdate\<close> twice with the same identifier and the same count
  gives the same list as applying it once.
\<close>

theorem handleUpdate_idempotent:
  "handleUpdate c n (handleUpdate c n prev) = handleUpdate c n prev"
  by (simp add: handleUpdate_def Let_def)

theorem handleUpdate_idempotent_witness:
  "handleUpdate ''99'' (Fin 6) (handleUpdate ''99'' (Fin 6) (reconcileData [sample_other] [sample_tiered]))
     = [calculateBill (sample_other\<lparr>activeEmployees := Fin 6\<rparr>) None]"
proof -
  have loaded: "reconcileData [sample_other] [sample_tiered] = [calculateBill sample_other None]"
    by (simp add: reconcileData_map rulesMap_def sample_keys)
  have once: "handleUpdate ''99'' (Fin 6) (reconcileData [sample_other] [sample_tiered])
     = [calculateBill (sample_other\<lparr>activeEmployees := Fin 6\<rparr>) None]"
    unfolding loaded by (simp add: handleUpdate_def sample_ids)
  with handleUpdate_idempotent [of "''99''" "Fin 6" "reconcileData [sample_other] [sample_tiered]"]
  show ?thesis by (simp only:)
qed

end
